theory Spec2Isabelle
  imports Main
begin

section \<open>Payment vocabulary (saleor/payment/__init__.py)\<close>

text \<open>
  \<^verbatim>\<open>class TransactionError(Enum)\<close>: a Python enumeration with ten members, each
  carrying its string value.
\<close>

datatype TransactionError =
    INCORRECT_NUMBER
  | INVALID_NUMBER
  | INCORRECT_CVV
  | INVALID_CVV
  | INCORRECT_ZIP
  | INCORRECT_ADDRESS
  | INVALID_EXPIRY_DATE
  | EXPIRED
  | PROCESSING_ERROR
  | DECLINED

fun TransactionError_value :: "TransactionError \<Rightarrow> string" where
  "TransactionError_value INCORRECT_NUMBER = ''incorrect_number''"
| "TransactionError_value INVALID_NUMBER = ''invalid_number''"
| "TransactionError_value INCORRECT_CVV = ''incorrect_cvv''"
| "TransactionError_value INVALID_CVV = ''invalid_cvv''"
| "TransactionError_value INCORRECT_ZIP = ''incorrect_zip''"
| "TransactionError_value INCORRECT_ADDRESS = ''incorrect_address''"
| "TransactionError_value INVALID_EXPIRY_DATE = ''invalid_expiry_date''"
| "TransactionError_value EXPIRED = ''expired''"
| "TransactionError_value PROCESSING_ERROR = ''processing_error''"
| "TransactionError_value DECLINED = ''declined''"

text \<open>The members in definition order, as iterating the Python enumeration lists them.\<close>

definition TransactionError_members :: "TransactionError list" where
  "TransactionError_members =
     [INCORRECT_NUMBER, INVALID_NUMBER, INCORRECT_CVV, INVALID_CVV, INCORRECT_ZIP,
      INCORRECT_ADDRESS, INVALID_EXPIRY_DATE, EXPIRED, PROCESSING_ERROR, DECLINED]"

text \<open>
  \<^verbatim>\<open>class TransactionKind\<close>: a plain class of string constants and the list
  \<^verbatim>\<open>CHOICES\<close> of (value, label) pairs, in the order the source writes it.
\<close>

definition TransactionKind_AUTH :: string where "TransactionKind_AUTH = ''auth''"
definition TransactionKind_CAPTURE :: string where "TransactionKind_CAPTURE = ''capture''"
definition TransactionKind_VOID :: string where "TransactionKind_VOID = ''void''"
definition TransactionKind_REFUND :: string where "TransactionKind_REFUND = ''refund''"
definition TransactionKind_CONFIRM :: string where "TransactionKind_CONFIRM = ''confirm''"

text \<open>The value constants of the class, in the order they are assigned.\<close>

definition TransactionKind_values :: "string list" where
  "TransactionKind_values =
     [TransactionKind_AUTH, TransactionKind_CAPTURE, TransactionKind_VOID,
      TransactionKind_REFUND, TransactionKind_CONFIRM]"

definition TransactionKind_CHOICES :: "(string \<times> string) list" where
  "TransactionKind_CHOICES =
     [(TransactionKind_AUTH, ''Authorization''),
      (TransactionKind_REFUND, ''Refund''),
      (TransactionKind_CAPTURE, ''Capture''),
      (TransactionKind_VOID, ''Void''),
      (TransactionKind_CONFIRM, ''Confirm'')]"

text \<open>\<^verbatim>\<open>class ChargeStatus\<close>: the same shape.\<close>

definition ChargeStatus_NOT_CHARGED :: string where
  "ChargeStatus_NOT_CHARGED = ''not-charged''"
definition ChargeStatus_PARTIALLY_CHARGED :: string where
  "ChargeStatus_PARTIALLY_CHARGED = ''partially-charged''"
definition ChargeStatus_FULLY_CHARGED :: string where
  "ChargeStatus_FULLY_CHARGED = ''fully-charged''"
definition ChargeStatus_PARTIALLY_REFUNDED :: string where
  "ChargeStatus_PARTIALLY_REFUNDED = ''partially-refunded''"
definition ChargeStatus_FULLY_REFUNDED :: string where
  "ChargeStatus_FULLY_REFUNDED = ''fully-refunded''"

definition ChargeStatus_values :: "string list" where
  "ChargeStatus_values =
     [ChargeStatus_NOT_CHARGED, ChargeStatus_PARTIALLY_CHARGED, ChargeStatus_FULLY_CHARGED,
      ChargeStatus_PARTIALLY_REFUNDED, ChargeStatus_FULLY_REFUNDED]"

definition ChargeStatus_CHOICES :: "(string \<times> string) list" where
  "ChargeStatus_CHOICES =
     [(ChargeStatus_NOT_CHARGED, ''Not charged''),
      (ChargeStatus_PARTIALLY_CHARGED, ''Partially charged''),
      (ChargeStatus_FULLY_CHARGED, ''Fully charged''),
      (ChargeStatus_PARTIALLY_REFUNDED, ''Partially refunded''),
      (ChargeStatus_FULLY_REFUNDED, ''Fully refunded'')]"

section \<open>Catalog store\<close>

text \<open>
  Modelled from the spec: the persisted catalog of saleor/product/models.py, which is not
  among the sources. A category is a node of a hierarchical tree (it points to its
  parent; a root has none); a product belongs to one category and one product type; an
  attribute belongs to zero or more product types along two association paths
  (attribute-on-product-type and attribute-on-variant-type). Primary keys are integers.
\<close>

record category =
  cat_id :: int
  cat_name :: string
  cat_parent :: "int option"

record product =
  product_id :: int
  product_name :: string
  product_category_id :: int
  product_type_id :: int
  product_is_published :: bool

record product_attribute =
  attr_id :: int
  attr_name :: string

text \<open>
  Modelled from the spec: the backing store, one list of rows per table. The two
  association tables hold pairs (product type id, attribute id).
\<close>

record store =
  categories :: "category list"
  products :: "product list"
  attributes :: "product_attribute list"
  product_attributes :: "(int \<times> int) list"
  variant_attributes :: "(int \<times> int) list"

text \<open>
  Modelled from the spec: the constraints the persistence engine keeps on the tables.
  A primary key is unique within its table.
\<close>

definition unique_primary_keys :: "store \<Rightarrow> bool" where
  "unique_primary_keys s =
     (distinct (map cat_id (categories s))
      \<and> distinct (map product_id (products s))
      \<and> distinct (map attr_id (attributes s)))"

text \<open>
  Modelled from the spec: category keys are the positive numbers an auto-incrementing
  key column hands out.
\<close>

definition positive_category_keys :: "store \<Rightarrow> bool" where
  "positive_category_keys s = list_all (\<lambda>c. 0 < cat_id c) (categories s)"

subsection \<open>Tree queries of the backing store\<close>

text \<open>
  Modelled from the spec: the direct (uncached) ancestor traversal of the backing store,
  \<^verbatim>\<open>category.get_ancestors()\<close>. It follows parent links and returns the chain
  ordered from the root down to the parent of the category, the category itself
  excluded. The tree is acyclic, so a chain has fewer members than the table has rows;
  the traversal stops after that many steps.
\<close>

fun ancestors_upto :: "nat \<Rightarrow> category list \<Rightarrow> category \<Rightarrow> category list" where
  "ancestors_upto 0 cs c = []"
| "ancestors_upto (Suc n) cs c =
     (case cat_parent c of
        None \<Rightarrow> []
      | Some p \<Rightarrow>
          (case find (\<lambda>x. cat_id x = p) cs of
             None \<Rightarrow> []
           | Some pc \<Rightarrow> ancestors_upto n cs pc @ [pc]))"

definition get_ancestors :: "store \<Rightarrow> category \<Rightarrow> category list" where
  "get_ancestors s c = ancestors_upto (length (categories s)) (categories s) c"

text \<open>
  Modelled from the spec: \<^verbatim>\<open>category.get_descendants(include_self=...)\<close>, the rows
  that have the category among their ancestors, and the category itself when
  \<open>include_self\<close> is set.
\<close>

definition get_descendants :: "store \<Rightarrow> category \<Rightarrow> bool \<Rightarrow> category list" where
  "get_descendants s c include_self =
     filter (\<lambda>d. (include_self \<and> cat_id d = cat_id c)
                  \<or> cat_id c \<in> set (map cat_id (get_ancestors s d)))
       (categories s)"

subsection \<open>Query sets\<close>

text \<open>
  Errors a lookup with \<^verbatim>\<open>objects.get(...)\<close> raises: no row matches, or more
  than one does.
\<close>

datatype error = DoesNotExist | MultipleObjectsReturned

text \<open>\<^verbatim>\<open>models.Category.objects.get(pk=category_pk)\<close>.\<close>

definition Category_objects_get :: "store \<Rightarrow> int \<Rightarrow> error + category" where
  "Category_objects_get s pk =
     (case filter (\<lambda>c. cat_id c = pk) (categories s) of
        [] \<Rightarrow> Inl DoesNotExist
      | [c] \<Rightarrow> Inr c
      | _ \<Rightarrow> Inl MultipleObjectsReturned)"

text \<open>\<^verbatim>\<open>queryset.first()\<close>: the first row, or None for an empty query set.\<close>

definition queryset_first :: "'a list \<Rightarrow> 'a option" where
  "queryset_first qs = (case qs of [] \<Rightarrow> None | x # _ \<Rightarrow> Some x)"

text \<open>
  \<^verbatim>\<open>models.Category.tree.filter(id=id).get_cached_trees()\<close>: the rows with that
  primary key, as a Python list. All rows of this query set sit at its top level, so
  \<^verbatim>\<open>get_cached_trees\<close> returns them all.
\<close>

definition Category_tree_filter_id_cached_trees :: "store \<Rightarrow> int \<Rightarrow> category list" where
  "Category_tree_filter_id_cached_trees s id' = filter (\<lambda>c. cat_id c = id') (categories s)"

section \<open>Category ancestor cache and resolvers (saleor/graphql/product/types.py)\<close>

definition CONTEXT_CACHE_NAME :: string where "CONTEXT_CACHE_NAME = ''__cache__''"
definition CACHE_ANCESTORS :: string where "CACHE_ANCESTORS = ''ancestors''"

text \<open>
  Modelled from the spec: \<^verbatim>\<open>CategoryAncestorsCache\<close> of saleor/graphql/utils.py,
  which is not among the sources. The cache is a mapping from a category (by primary
  key, as model instances compare) to its ordered ancestor sequence; building it for a
  category materialises the descendant-inclusive subtree and stores an entry for every
  node of that subtree. Its \<^verbatim>\<open>get\<close> returns the stored sequence for a category
  the cache contains; for a category it does not contain, the lookup falls back to the
  direct (uncached) ancestor traversal of the backing store.
\<close>

type_synonym ancestors_cache = "(int \<times> category list) list"

definition CategoryAncestorsCache :: "store \<Rightarrow> category \<Rightarrow> ancestors_cache" where
  "CategoryAncestorsCache s category =
     map (\<lambda>d. (cat_id d, get_ancestors s d)) (get_descendants s category True)"

definition cache_get ::
  "store \<Rightarrow> ancestors_cache \<Rightarrow> category \<Rightarrow> category list option" where
  "cache_get s ac category =
     (case map_of ac (cat_id category) of
        Some ancestors \<Rightarrow> Some ancestors
      | None \<Rightarrow> Some (get_ancestors s category))"

text \<open>
  The request context: the requesting user and the attribute named
  \<open>CONTEXT_CACHE_NAME\<close>, which is None until \<open>setattr\<close> creates it and then holds
  a Python dict, here an association list from cache names to caches.
\<close>

record 'u request_context =
  ctx_user :: 'u
  ctx_cache :: "(string \<times> ancestors_cache) list option"

text \<open>
  \<^verbatim>\<open>
  def get_ancestors_from_cache(category, context):
      cache = getattr(context, CONTEXT_CACHE_NAME, None)
      if cache and CACHE_ANCESTORS in cache:
          return cache[CACHE_ANCESTORS].get(category)
      return category.get_ancestors()
  \<close>
  The result is None where Python returns None. A dict is true when it is not empty.
  After the test \<^verbatim>\<open>CACHE_ANCESTORS in cache\<close> the subscript finds the entry, so
  the None branch of the inner case is never taken.
\<close>

definition get_ancestors_from_cache ::
  "store \<Rightarrow> category \<Rightarrow> 'u request_context \<Rightarrow> category list option" where
  "get_ancestors_from_cache s category ctx =
     (case ctx_cache ctx of
        None \<Rightarrow> Some (get_ancestors s category)
      | Some cache \<Rightarrow>
          if cache \<noteq> [] \<and> CACHE_ANCESTORS \<in> set (map fst cache)
          then (case map_of cache CACHE_ANCESTORS of
                  Some ac \<Rightarrow> cache_get s ac category
                | None \<Rightarrow> Some (get_ancestors s category))
          else Some (get_ancestors s category))"

text \<open>
  \<^verbatim>\<open>
  def resolve_category(id, info):
      categories = models.Category.tree.filter(id=id).get_cached_trees()
      if categories:
          category = categories[0]
          cache = {CACHE_ANCESTORS: CategoryAncestorsCache(category)}
          setattr(info.context, CONTEXT_CACHE_NAME, cache)
          return category
      return None
  \<close>
  The context is passed in and returned, changed by \<open>setattr\<close> or as it was.
\<close>

definition resolve_category ::
  "store \<Rightarrow> int \<Rightarrow> 'u request_context \<Rightarrow> category option \<times> 'u request_context" where
  "resolve_category s id' ctx =
     (case Category_tree_filter_id_cached_trees s id' of
        [] \<Rightarrow> (None, ctx)
      | category # _ \<Rightarrow>
          (Some category,
           ctx\<lparr>ctx_cache := Some [(CACHE_ANCESTORS, CategoryAncestorsCache s category)]\<rparr>))"

text \<open>
  Modelled from the spec: \<^verbatim>\<open>products_visible_to_user\<close> of saleor/product/utils.py,
  which is not among the sources. The visibility policy is an external collaborator, a
  parameter here: it says which products a user may see, and the query set holds those
  rows of the product table.
\<close>

definition products_visible_to_user ::
  "('u \<Rightarrow> product \<Rightarrow> bool) \<Rightarrow> store \<Rightarrow> 'u \<Rightarrow> product list" where
  "products_visible_to_user visible s user = filter (visible user) (products s)"

text \<open>
  \<^verbatim>\<open>
  def resolve_product(id, info):
      products = products_visible_to_user(info.context.user).filter(id=id)
      return products.first()
  \<close>
\<close>

definition resolve_product ::
  "('u \<Rightarrow> product \<Rightarrow> bool) \<Rightarrow> store \<Rightarrow> int \<Rightarrow> 'u request_context \<Rightarrow> product option" where
  "resolve_product visible s id' ctx =
     queryset_first
       (filter (\<lambda>p. product_id p = id') (products_visible_to_user visible s (ctx_user ctx)))"

text \<open>
  \<^verbatim>\<open>
  def resolve_thumbnail_url(self, info, *, size=None):
      if not size:
          size = '255x255'
      return product_first_image(self, size)
  \<close>
  \<^verbatim>\<open>product_first_image\<close> (the image-cropping collaborator) is a parameter. The
  size is None or a string; None and the empty string are false in Python.
\<close>

definition resolve_thumbnail_url ::
  "(product \<Rightarrow> string \<Rightarrow> 'r) \<Rightarrow> product \<Rightarrow> string option \<Rightarrow> 'r" where
  "resolve_thumbnail_url product_first_image self size' =
     (case size' of
        None \<Rightarrow> product_first_image self ''255x255''
      | Some sz \<Rightarrow>
          if sz = [] then product_first_image self ''255x255''
          else product_first_image self sz)"

subsection \<open>Attribute resolver\<close>

text \<open>
  The rows of a LEFT OUTER JOIN on one side: every related key, or a single NULL where
  there is none.
\<close>

definition left_join :: "'a list \<Rightarrow> 'a option list" where
  "left_join xs = (if xs = [] then [None] else map Some xs)"

text \<open>The product types related to an attribute along one association table.\<close>

definition related_types :: "(int \<times> int) list \<Rightarrow> product_attribute \<Rightarrow> int list" where
  "related_types table a = map fst (filter (\<lambda>(pt, aid). aid = attr_id a) table)"

text \<open>
  The rows the filter of \<^verbatim>\<open>resolve_attributes\<close> ranges over: the attribute table
  joined with both association tables, one row for every combination of a related
  product type (relation \<^verbatim>\<open>product_types\<close>) and a related variant product type
  (relation \<^verbatim>\<open>product_variant_types\<close>).
\<close>

definition attribute_rows ::
  "store \<Rightarrow> (product_attribute \<times> int option \<times> int option) list" where
  "attribute_rows s =
     concat (map (\<lambda>a.
       concat (map (\<lambda>p.
         map (\<lambda>v. (a, p, v)) (left_join (related_types (variant_attributes s) a)))
         (left_join (related_types (product_attributes s) a))))
       (attributes s))"

text \<open>\<^verbatim>\<open>column__in=values\<close>: a NULL column matches nothing.\<close>

definition column_in :: "int option \<Rightarrow> int list \<Rightarrow> bool" where
  "column_in x values = (case x of None \<Rightarrow> False | Some i \<Rightarrow> i \<in> set values)"

text \<open>
  \<^verbatim>\<open>
  def resolve_attributes(category_pk):
      queryset = models.ProductAttribute.objects.prefetch_related('values')
      if category_pk:
          tree = models.Category.objects.get(
              pk=category_pk).get_descendants(include_self=True)
          product_types = set(
              [obj[0] for obj in models.Product.objects.filter(
                  category__in=tree).values_list('product_type_id')])
          queryset = queryset.filter(
              Q(product_types__in=product_types) |
              Q(product_variant_types__in=product_types))
      return queryset.distinct()
  \<close>
  \<open>category_pk\<close> is None or an integer; None and 0 are false in Python. The raise of
  \<^verbatim>\<open>objects.get\<close> is the \<open>Inl\<close> result. \<^verbatim>\<open>distinct()\<close> removes repeated rows;
  the order of the rows is not modelled beyond that of the tables.
\<close>

definition resolve_attributes :: "store \<Rightarrow> int option \<Rightarrow> error + product_attribute list" where
  "resolve_attributes s category_pk =
     (case category_pk of
        None \<Rightarrow> Inr (remdups (attributes s))
      | Some pk \<Rightarrow>
          if pk = 0 then Inr (remdups (attributes s))
          else
            (case Category_objects_get s pk of
               Inl e \<Rightarrow> Inl e
             | Inr c \<Rightarrow>
                 (let tree = get_descendants s c True;
                      product_types =
                        remdups (map product_type_id
                          (filter (\<lambda>p. product_category_id p \<in> set (map cat_id tree))
                             (products s)))
                  in Inr (remdups (map fst
                       (filter (\<lambda>(a, p, v). column_in p product_types
                                             \<or> column_in v product_types)
                          (attribute_rows s)))))))"

text \<open>
  The attribute set the specification describes for a category: the attributes
  associated, on the product-type path or on the variant-type path, with a product type
  used by a product in the descendant-inclusive subtree of the category.
\<close>

definition subtree_attributes :: "store \<Rightarrow> category \<Rightarrow> product_attribute set" where
  "subtree_attributes s c =
     {a \<in> set (attributes s).
        \<exists>p \<in> set (products s).
          product_category_id p \<in> cat_id ` set (get_descendants s c True)
          \<and> ((product_type_id p, attr_id a) \<in> set (product_attributes s)
               \<or> (product_type_id p, attr_id a) \<in> set (variant_attributes s))}"

subsection \<open>A small catalog\<close>

text \<open>
  Four categories (a root with three children, one of them without products), three
  products, three attributes: the inputs at which the theorems below are instantiated.
\<close>

definition cat_root :: category where
  "cat_root = \<lparr>cat_id = 1, cat_name = ''Apparel'', cat_parent = None\<rparr>"
definition cat_shirts :: category where
  "cat_shirts = \<lparr>cat_id = 2, cat_name = ''Shirts'', cat_parent = Some 1\<rparr>"
definition cat_shoes :: category where
  "cat_shoes = \<lparr>cat_id = 3, cat_name = ''Shoes'', cat_parent = Some 1\<rparr>"
definition cat_hats :: category where
  "cat_hats = \<lparr>cat_id = 4, cat_name = ''Hats'', cat_parent = Some 1\<rparr>"

definition prod_tee :: product where
  "prod_tee = \<lparr>product_id = 10, product_name = ''Tee'', product_category_id = 2,
     product_type_id = 100, product_is_published = True\<rparr>"
definition prod_polo :: product where
  "prod_polo = \<lparr>product_id = 11, product_name = ''Polo'', product_category_id = 2,
     product_type_id = 100, product_is_published = False\<rparr>"
definition prod_boot :: product where
  "prod_boot = \<lparr>product_id = 12, product_name = ''Boot'', product_category_id = 3,
     product_type_id = 101, product_is_published = True\<rparr>"

definition attr_color :: product_attribute where
  "attr_color = \<lparr>attr_id = 1, attr_name = ''color''\<rparr>"
definition attr_size :: product_attribute where
  "attr_size = \<lparr>attr_id = 2, attr_name = ''size''\<rparr>"
definition attr_brand :: product_attribute where
  "attr_brand = \<lparr>attr_id = 3, attr_name = ''brand''\<rparr>"

definition demo_store :: store where
  "demo_store =
     \<lparr>categories = [cat_root, cat_shirts, cat_shoes, cat_hats],
      products = [prod_tee, prod_polo, prod_boot],
      attributes = [attr_color, attr_size, attr_brand],
      product_attributes = [(100, 1), (101, 1), (101, 3)],
      variant_attributes = [(100, 1), (100, 2)]\<rparr>"

text \<open>The visibility policy of the small catalog: staff see everything, others the published products.\<close>

definition demo_visible :: "bool \<Rightarrow> product \<Rightarrow> bool" where
  "demo_visible is_staff p = (is_staff \<or> product_is_published p)"

text \<open>A request of a user who is not staff, before any resolver has run.\<close>

definition demo_context :: "bool request_context" where
  "demo_context = \<lparr>ctx_user = False, ctx_cache = None\<rparr>"

text \<open>An image collaborator for the small catalog: it names the product and the size.\<close>

definition demo_first_image :: "product \<Rightarrow> string \<Rightarrow> string" where
  "demo_first_image p sz = product_name p @ ''-'' @ sz"

section \<open>Theorems: the small catalog\<close>

lemmas demo_defs =
  demo_store_def cat_root_def cat_shirts_def cat_shoes_def cat_hats_def
  prod_tee_def prod_polo_def prod_boot_def attr_color_def attr_size_def attr_brand_def
  demo_context_def demo_visible_def demo_first_image_def

lemma demo_store_unique_keys: "unique_primary_keys demo_store"
  by (simp add: unique_primary_keys_def demo_defs)

lemma demo_store_positive_keys: "positive_category_keys demo_store"
  by (simp add: positive_category_keys_def demo_defs)

lemma demo_ancestors_shirts: "get_ancestors demo_store cat_shirts = [cat_root]"
  by (simp add: get_ancestors_def demo_defs)

lemma demo_ancestors_shoes: "get_ancestors demo_store cat_shoes = [cat_root]"
  by (simp add: get_ancestors_def demo_defs)

lemma demo_resolve_shirts:
  "resolve_category demo_store 2 demo_context =
     (Some cat_shirts,
      \<lparr>ctx_user = False, ctx_cache = Some [(''ancestors'', [(2, [cat_root])])]\<rparr>)"
  by (simp add: resolve_category_def Category_tree_filter_id_cached_trees_def
      CategoryAncestorsCache_def get_descendants_def get_ancestors_def CACHE_ANCESTORS_def
      demo_defs)

section \<open>Theorems: rows and keys\<close>

lemma filter_key_distinct:
  "distinct (map f xs) \<Longrightarrow> x \<in> set xs \<Longrightarrow> filter (\<lambda>y. f y = f x) xs = [x]"
proof (induction xs)
  case Nil
  then show ?case by simp
next
  case (Cons a xs)
  show ?case
  proof (cases "a = x")
    case True
    with Cons.prems have "f x \<notin> f ` set xs" by simp
    then have "\<forall>y \<in> set xs. f y \<noteq> f x" by (metis imageI)
    then have "filter (\<lambda>y. f y = f x) xs = []" by (simp add: filter_empty_conv)
    with True show ?thesis by simp
  next
    case False
    with Cons.prems have x: "x \<in> set xs" and d: "distinct (map f xs)" by auto
    from Cons.prems x have "f a \<noteq> f x" by force
    with Cons.IH [OF d x] show ?thesis by simp
  qed
qed

lemma map_of_keyed_distinct:
  "distinct (map f xs) \<Longrightarrow> x \<in> set xs \<Longrightarrow>
   map_of (map (\<lambda>d. (f d, g d)) xs) (f x) = Some (g x)"
proof (induction xs)
  case Nil
  then show ?case by simp
next
  case (Cons a xs)
  show ?case
  proof (cases "a = x")
    case True
    then show ?thesis by simp
  next
    case False
    with Cons.prems have x: "x \<in> set xs" and d: "distinct (map f xs)" by auto
    from Cons.prems x have "f a \<noteq> f x" by force
    with Cons.IH [OF d x] show ?thesis by simp
  qed
qed

lemma filter_swap: "filter A (filter B xs) = filter B (filter A xs)"
  by (induction xs) simp_all

section \<open>Theorems: the ancestor cache\<close>

lemma resolve_category_found:
  assumes "distinct (map cat_id (categories s))" and "C \<in> set (categories s)"
  shows "resolve_category s (cat_id C) ctx =
           (Some C, ctx\<lparr>ctx_cache := Some [(CACHE_ANCESTORS, CategoryAncestorsCache s C)]\<rparr>)"
  using filter_key_distinct [OF assms]
  by (simp add: resolve_category_def Category_tree_filter_id_cached_trees_def)

text \<open>The cache built for a category answers, for every node of its subtree, with the
  direct traversal of that node.\<close>

lemma cache_get_descendant:
  assumes "distinct (map cat_id (categories s))"
    and "d \<in> set (get_descendants s C True)"
  shows "cache_get s (CategoryAncestorsCache s C) d = Some (get_ancestors s d)"
proof -
  have k: "distinct (map cat_id (get_descendants s C True))"
    using assms(1) by (simp add: get_descendants_def distinct_map_filter)
  show ?thesis
    unfolding cache_get_def CategoryAncestorsCache_def
    using map_of_keyed_distinct [OF k assms(2), of "get_ancestors s"] by simp
qed

lemma get_descendants_self:
  "C \<in> set (categories s) \<Longrightarrow> C \<in> set (get_descendants s C True)"
  by (simp add: get_descendants_def)

lemma get_ancestors_from_cache_hit:
  "ctx_cache ctx = Some [(CACHE_ANCESTORS, ac)] \<Longrightarrow>
   get_ancestors_from_cache s c ctx = cache_get s ac c"
  by (simp add: get_ancestors_from_cache_def)

text \<open>
  C1. For every category C of the backing store, \<open>resolve_category\<close> at the key of C
  returns C and populates the cache of the request context, and
  \<open>get_ancestors_from_cache\<close> for C on that context then returns exactly the ordered
  ancestor sequence the direct uncached traversal \<open>get_ancestors\<close> returns for C.
\<close>

theorem resolve_category_then_cache_is_traversal:
  assumes "unique_primary_keys s" and "C \<in> set (categories s)"
  shows "fst (resolve_category s (cat_id C) ctx) = Some C
         \<and> get_ancestors_from_cache s C (snd (resolve_category s (cat_id C) ctx))
             = Some (get_ancestors s C)"
proof -
  from assms(1) have d: "distinct (map cat_id (categories s))"
    by (simp add: unique_primary_keys_def)
  have r: "resolve_category s (cat_id C) ctx =
        (Some C, ctx\<lparr>ctx_cache := Some [(CACHE_ANCESTORS, CategoryAncestorsCache s C)]\<rparr>)"
    using d assms(2) by (rule resolve_category_found)
  have "get_ancestors_from_cache s C
          (ctx\<lparr>ctx_cache := Some [(CACHE_ANCESTORS, CategoryAncestorsCache s C)]\<rparr>)
        = cache_get s (CategoryAncestorsCache s C) C"
    by (rule get_ancestors_from_cache_hit) simp
  with r cache_get_descendant [OF d get_descendants_self [OF assms(2)]]
  show ?thesis by simp
qed

theorem resolve_category_then_cache_is_traversal_witness:
  "unique_primary_keys demo_store \<and> cat_shirts \<in> set (categories demo_store)
   \<and> fst (resolve_category demo_store 2 demo_context) = Some cat_shirts
   \<and> get_ancestors_from_cache demo_store cat_shirts
        (snd (resolve_category demo_store 2 demo_context)) = Some [cat_root]"
proof -
  have m: "cat_shirts \<in> set (categories demo_store)" by (simp add: demo_store_def)
  have i: "cat_id cat_shirts = 2" by (simp add: cat_shirts_def)
  show ?thesis
    using resolve_category_then_cache_is_traversal
        [OF demo_store_unique_keys m, of demo_context]
      demo_store_unique_keys m
    by (simp add: i demo_ancestors_shirts)
qed

text \<open>
  C2. For every category and every context that carries no populated ancestor cache (no
  cache attribute, an empty cache dict, or a cache dict without the entry
  \<open>CACHE_ANCESTORS\<close>) or carries an ancestor cache that does not contain the
  category, \<open>get_ancestors_from_cache\<close> returns a result, and that result is the
  ancestor sequence of the direct uncached traversal.
\<close>

theorem get_ancestors_from_cache_fallback:
  "(ctx_cache ctx = None \<or> ctx_cache ctx = Some []
      \<or> (\<exists>cache. ctx_cache ctx = Some cache \<and> map_of cache CACHE_ANCESTORS = None)
      \<or> (\<exists>cache ac. ctx_cache ctx = Some cache \<and> map_of cache CACHE_ANCESTORS = Some ac
             \<and> map_of ac (cat_id c) = None))
   \<longrightarrow> get_ancestors_from_cache s c ctx = Some (get_ancestors s c)"
proof
  assume "ctx_cache ctx = None \<or> ctx_cache ctx = Some []
      \<or> (\<exists>cache. ctx_cache ctx = Some cache \<and> map_of cache CACHE_ANCESTORS = None)
      \<or> (\<exists>cache ac. ctx_cache ctx = Some cache \<and> map_of cache CACHE_ANCESTORS = Some ac
             \<and> map_of ac (cat_id c) = None)"
  then consider
      (absent) "ctx_cache ctx = None \<or> ctx_cache ctx = Some []
          \<or> (\<exists>cache. ctx_cache ctx = Some cache \<and> map_of cache CACHE_ANCESTORS = None)"
    | (miss) cache ac where "ctx_cache ctx = Some cache"
        and "map_of cache CACHE_ANCESTORS = Some ac" and "map_of ac (cat_id c) = None"
    by blast
  then show "get_ancestors_from_cache s c ctx = Some (get_ancestors s c)"
  proof cases
    case absent
    then show ?thesis
      by (auto simp add: get_ancestors_from_cache_def split: option.splits)
  next
    case miss
    then show ?thesis
      by (simp add: get_ancestors_from_cache_def cache_get_def)
  qed
qed

theorem get_ancestors_from_cache_fallback_witness:
  "ctx_cache demo_context = None
   \<and> get_ancestors_from_cache demo_store cat_shoes demo_context = Some [cat_root]
   \<and> ctx_cache (snd (resolve_category demo_store 2 demo_context))
        = Some [(CACHE_ANCESTORS, [(2, [cat_root])])]
   \<and> map_of [(CACHE_ANCESTORS, [(2, [cat_root])])] CACHE_ANCESTORS = Some [(2, [cat_root])]
   \<and> map_of [(2, [cat_root])] (cat_id cat_shoes) = None
   \<and> get_ancestors_from_cache demo_store cat_shoes
        (snd (resolve_category demo_store 2 demo_context)) = Some [cat_root]"
proof -
  let ?ctx = "snd (resolve_category demo_store 2 demo_context)"
  have n: "ctx_cache demo_context = None" by (simp add: demo_context_def)
  have c: "ctx_cache ?ctx = Some [(CACHE_ANCESTORS, [(2, [cat_root])])]"
    by (simp add: demo_resolve_shirts CACHE_ANCESTORS_def)
  have m: "map_of [(CACHE_ANCESTORS, [(2, [cat_root])])] CACHE_ANCESTORS = Some [(2, [cat_root])]"
    by simp
  have g: "map_of [(2, [cat_root])] (cat_id cat_shoes) = None"
    by (simp add: cat_shoes_def)
  from get_ancestors_from_cache_fallback [of demo_context cat_shoes demo_store] n
  have 1: "get_ancestors_from_cache demo_store cat_shoes demo_context = Some [cat_root]"
    by (simp add: demo_ancestors_shoes)
  from c m g have "\<exists>cache ac. ctx_cache ?ctx = Some cache
      \<and> map_of cache CACHE_ANCESTORS = Some ac \<and> map_of ac (cat_id cat_shoes) = None"
    by blast
  with get_ancestors_from_cache_fallback [of ?ctx cat_shoes demo_store]
  have 2: "get_ancestors_from_cache demo_store cat_shoes ?ctx = Some [cat_root]"
    by (simp add: demo_ancestors_shoes)
  from n 1 c m g 2 show ?thesis by blast
qed

section \<open>Theorems: lookups by identifier\<close>

lemma resolve_category_cases:
  "(\<exists>c rest. Category_tree_filter_id_cached_trees s i = c # rest
       \<and> resolve_category s i ctx =
           (Some c, ctx\<lparr>ctx_cache := Some [(CACHE_ANCESTORS, CategoryAncestorsCache s c)]\<rparr>))
   \<or> (Category_tree_filter_id_cached_trees s i = [] \<and> resolve_category s i ctx = (None, ctx))"
  by (cases "Category_tree_filter_id_cached_trees s i") (simp_all add: resolve_category_def)

lemma cached_trees_empty_iff:
  "Category_tree_filter_id_cached_trees s i = [] \<longleftrightarrow>
     (\<forall>c \<in> set (categories s). cat_id c \<noteq> i)"
  by (simp add: Category_tree_filter_id_cached_trees_def filter_empty_conv)

text \<open>
  C10. \<open>resolve_category\<close> changes the request context only on success: for an
  identifier that matches no category it returns None together with the context as it
  was (no cache created, attached or cleared); and whenever the returned context differs
  from the one passed in, a category with that identifier exists and is the result.
\<close>

theorem resolve_category_not_found_keeps_context:
  "((\<forall>c \<in> set (categories s). cat_id c \<noteq> i) \<longrightarrow> resolve_category s i ctx = (None, ctx))
   \<and> (snd (resolve_category s i ctx) \<noteq> ctx \<longrightarrow>
        (\<exists>c \<in> set (categories s). cat_id c = i \<and> fst (resolve_category s i ctx) = Some c))"
proof (intro conjI impI)
  assume "\<forall>c \<in> set (categories s). cat_id c \<noteq> i"
  then have "Category_tree_filter_id_cached_trees s i = []"
    by (simp add: cached_trees_empty_iff)
  then show "resolve_category s i ctx = (None, ctx)"
    by (simp add: resolve_category_def)
next
  assume changed: "snd (resolve_category s i ctx) \<noteq> ctx"
  from resolve_category_cases [of s i ctx] changed
  obtain c rest where f: "Category_tree_filter_id_cached_trees s i = c # rest"
    and r: "fst (resolve_category s i ctx) = Some c"
    by auto
  from f have "c \<in> set (filter (\<lambda>c. cat_id c = i) (categories s))"
    by (simp add: Category_tree_filter_id_cached_trees_def)
  then have "c \<in> set (categories s) \<and> cat_id c = i" by simp
  with r show "\<exists>c \<in> set (categories s). cat_id c = i \<and> fst (resolve_category s i ctx) = Some c"
    by blast
qed

theorem resolve_category_not_found_keeps_context_witness:
  "list_all (\<lambda>c. cat_id c \<noteq> 999) (categories demo_store)
   \<and> resolve_category demo_store 999 demo_context = (None, demo_context)
   \<and> snd (resolve_category demo_store 2 demo_context) \<noteq> demo_context
   \<and> cat_shirts \<in> set (categories demo_store) \<and> cat_id cat_shirts = 2
   \<and> fst (resolve_category demo_store 2 demo_context) = Some cat_shirts"
proof -
  have a: "list_all (\<lambda>c. cat_id c \<noteq> 999) (categories demo_store)"
    by (simp add: demo_defs)
  then have b: "\<forall>c \<in> set (categories demo_store). cat_id c \<noteq> 999"
    by (simp add: list_all_iff)
  have c: "snd (resolve_category demo_store 2 demo_context) \<noteq> demo_context"
    unfolding demo_resolve_shirts by (simp add: demo_context_def)
  have d: "cat_shirts \<in> set (categories demo_store) \<and> cat_id cat_shirts = 2"
    by (simp add: demo_defs)
  from resolve_category_not_found_keeps_context [of demo_store 999 demo_context] b
  have 1: "resolve_category demo_store 999 demo_context = (None, demo_context)" by blast
  have 2: "fst (resolve_category demo_store 2 demo_context) = Some cat_shirts"
    by (simp add: demo_resolve_shirts)
  from a 1 c d 2 show ?thesis by blast
qed

text \<open>
  C4. For every product P of the store and every request whose user the visibility
  policy does not let see P, \<open>resolve_product\<close> at the key of P returns None, whatever
  the policy is.
\<close>

theorem resolve_product_invisible_absent:
  assumes "unique_primary_keys s" and "P \<in> set (products s)"
    and "\<not> visible (ctx_user ctx) P"
  shows "resolve_product visible s (product_id P) ctx = None"
proof -
  let ?V = "visible (ctx_user ctx)"
  let ?K = "\<lambda>p. product_id p = product_id P"
  from assms(1) have d: "distinct (map product_id (products s))"
    by (simp add: unique_primary_keys_def)
  have e: "filter ?K (products s) = [P]"
    using d assms(2) by (rule filter_key_distinct)
  have "filter ?K (filter ?V (products s)) = filter ?V (filter ?K (products s))"
    by (rule filter_swap)
  also have "\<dots> = filter ?V [P]" by (simp only: e)
  also have "\<dots> = []" using assms(3) by simp
  finally show ?thesis
    by (simp add: resolve_product_def products_visible_to_user_def queryset_first_def)
qed

theorem resolve_product_invisible_absent_witness:
  "unique_primary_keys demo_store \<and> prod_polo \<in> set (products demo_store)
   \<and> \<not> demo_visible (ctx_user demo_context) prod_polo
   \<and> resolve_product demo_visible demo_store 11 demo_context = None"
proof -
  have m: "prod_polo \<in> set (products demo_store)" by (simp add: demo_store_def)
  have v: "\<not> demo_visible (ctx_user demo_context) prod_polo"
    by (simp add: demo_visible_def demo_context_def prod_polo_def)
  have i: "product_id prod_polo = 11" by (simp add: prod_polo_def)
  from resolve_product_invisible_absent [of demo_store prod_polo demo_visible demo_context]
    demo_store_unique_keys m v
  show ?thesis by (simp add: i)
qed

lemma resolve_product_not_found:
  "\<forall>p \<in> set (products s). product_id p \<noteq> i \<Longrightarrow> resolve_product visible s i ctx = None"
  by (simp add: resolve_product_def products_visible_to_user_def queryset_first_def
      filter_empty_conv split: list.splits)

text \<open>
  A category key that is not 0 and matches no row makes \<open>resolve_attributes\<close> raise
  \<open>DoesNotExist\<close>.
\<close>

lemma resolve_attributes_not_found_raises:
  assumes "pk \<noteq> 0" and "\<forall>c \<in> set (categories s). cat_id c \<noteq> pk"
  shows "resolve_attributes s (Some pk) = Inl DoesNotExist"
proof -
  from assms(2) have "filter (\<lambda>c. cat_id c = pk) (categories s) = []"
    by (simp add: filter_empty_conv)
  with assms(1) show ?thesis
    by (simp add: resolve_attributes_def Category_objects_get_def)
qed

text \<open>
  C3, at the key 999, which matches no category and no product of the small catalog:
  \<open>resolve_category\<close> and \<open>resolve_product\<close> return None, and
  \<open>resolve_attributes\<close> does not return an absent or empty result but raises
  \<open>DoesNotExist\<close>.
\<close>

theorem lookup_failures_at_missing_key:
  "resolve_category demo_store 999 demo_context = (None, demo_context)
   \<and> resolve_product demo_visible demo_store 999 demo_context = None
   \<and> resolve_attributes demo_store (Some 999) = Inl DoesNotExist"
proof -
  have c: "\<forall>c \<in> set (categories demo_store). cat_id c \<noteq> 999" by (simp add: demo_defs)
  have p: "\<forall>p \<in> set (products demo_store). product_id p \<noteq> 999" by (simp add: demo_defs)
  from c have "Category_tree_filter_id_cached_trees demo_store 999 = []"
    by (simp only: cached_trees_empty_iff)
  then have 1: "resolve_category demo_store 999 demo_context = (None, demo_context)"
    by (simp add: resolve_category_def)
  have 2: "resolve_product demo_visible demo_store 999 demo_context = None"
    using p by (rule resolve_product_not_found)
  have 3: "resolve_attributes demo_store (Some 999) = Inl DoesNotExist"
    using c by (intro resolve_attributes_not_found_raises) simp_all
  from 1 2 3 show ?thesis by blast
qed

section \<open>Theorems: thumbnail size\<close>

text \<open>
  C7. For every product, \<open>resolve_thumbnail_url\<close> with no size (None) computes the
  thumbnail with the size string 255x255, and with an explicit non-empty size it
  computes the thumbnail with that size, whatever the image collaborator is.
\<close>

theorem resolve_thumbnail_url_default_size:
  "resolve_thumbnail_url product_first_image self None = product_first_image self ''255x255''
   \<and> (sz \<noteq> [] \<longrightarrow>
        resolve_thumbnail_url product_first_image self (Some sz) = product_first_image self sz)"
  by (simp add: resolve_thumbnail_url_def)

theorem resolve_thumbnail_url_default_size_witness:
  "resolve_thumbnail_url demo_first_image prod_tee None = ''Tee-255x255''
   \<and> ''60x60'' \<noteq> []
   \<and> resolve_thumbnail_url demo_first_image prod_tee (Some ''60x60'') = ''Tee-60x60''"
  using resolve_thumbnail_url_default_size [of demo_first_image prod_tee "''60x60''"]
  by (simp add: demo_first_image_def prod_tee_def)

section \<open>Theorems: the attribute resolver\<close>

text \<open>
  C5. Called with no category (None), \<open>resolve_attributes\<close> returns all attributes
  of the store, each exactly once, whatever the association tables hold.
\<close>

theorem resolve_attributes_none_all_once:
  "\<exists>r. resolve_attributes s None = Inr r \<and> set r = set (attributes s) \<and> distinct r"
  by (simp add: resolve_attributes_def)

lemma set_left_join:
  "set (left_join xs) = (if xs = [] then {None} else Some ` set xs)"
  by (simp add: left_join_def)

lemma column_in_left_join:
  "(\<exists>x \<in> set (left_join xs). column_in x vals) \<longleftrightarrow> (\<exists>i \<in> set xs. i \<in> set vals)"
  by (cases "xs = []") (auto simp add: set_left_join column_in_def)

lemma left_join_inhabited: "\<exists>x. x \<in> set (left_join xs)"
  by (cases "xs = []") (auto simp add: set_left_join)

lemma related_types_mem:
  "pt \<in> set (related_types table a) \<longleftrightarrow> (pt, attr_id a) \<in> set table"
  by (force simp add: related_types_def)

lemma attribute_rows_mem:
  "(a, p, v) \<in> set (attribute_rows s) \<longleftrightarrow>
     a \<in> set (attributes s)
     \<and> p \<in> set (left_join (related_types (product_attributes s) a))
     \<and> v \<in> set (left_join (related_types (variant_attributes s) a))"
  by (auto simp add: attribute_rows_def)

text \<open>
  The attributes that survive the filter on the joined rows: those with a related
  product type among \<open>pts\<close> on one of the two association paths.
\<close>

lemma filtered_rows_attributes:
  "set (map fst (filter (\<lambda>(a, p, v). column_in p pts \<or> column_in v pts) (attribute_rows s)))
   = {a \<in> set (attributes s).
        (\<exists>pt \<in> set pts. (pt, attr_id a) \<in> set (product_attributes s))
        \<or> (\<exists>pt \<in> set pts. (pt, attr_id a) \<in> set (variant_attributes s))}"
  (is "?L = ?R")
proof (rule set_eqI)
  fix a
  let ?P = "left_join (related_types (product_attributes s) a)"
  let ?V = "left_join (related_types (variant_attributes s) a)"
  have "a \<in> ?L \<longleftrightarrow>
      (\<exists>p v. (a, p, v) \<in> set (attribute_rows s) \<and> (column_in p pts \<or> column_in v pts))"
    by force
  also have "\<dots> \<longleftrightarrow> a \<in> set (attributes s)
      \<and> (\<exists>p v. p \<in> set ?P \<and> v \<in> set ?V \<and> (column_in p pts \<or> column_in v pts))"
    by (auto simp add: attribute_rows_mem)
  also have "(\<exists>p v. p \<in> set ?P \<and> v \<in> set ?V \<and> (column_in p pts \<or> column_in v pts))
      \<longleftrightarrow> (\<exists>p \<in> set ?P. column_in p pts) \<or> (\<exists>v \<in> set ?V. column_in v pts)"
    using left_join_inhabited [of "related_types (product_attributes s) a"]
      left_join_inhabited [of "related_types (variant_attributes s) a"]
    by blast
  also have "a \<in> set (attributes s)
        \<and> ((\<exists>p \<in> set ?P. column_in p pts) \<or> (\<exists>v \<in> set ?V. column_in v pts))
      \<longleftrightarrow> a \<in> ?R"
    by (auto simp add: column_in_left_join related_types_mem)
  finally show "a \<in> ?L \<longleftrightarrow> a \<in> ?R" .
qed

lemma Category_objects_get_found:
  assumes "distinct (map cat_id (categories s))" and "c \<in> set (categories s)"
  shows "Category_objects_get s (cat_id c) = Inr c"
  using filter_key_distinct [OF assms] by (simp add: Category_objects_get_def)

lemma resolve_attributes_found:
  assumes "unique_primary_keys s" and "positive_category_keys s"
    and "c \<in> set (categories s)"
  shows "resolve_attributes s (Some (cat_id c)) =
     Inr (remdups (map fst
       (filter (\<lambda>(a, p, v).
            column_in p (remdups (map product_type_id
               (filter (\<lambda>p. product_category_id p \<in> set (map cat_id (get_descendants s c True)))
                  (products s))))
          \<or> column_in v (remdups (map product_type_id
               (filter (\<lambda>p. product_category_id p \<in> set (map cat_id (get_descendants s c True)))
                  (products s)))))
          (attribute_rows s))))"
proof -
  from assms have d: "distinct (map cat_id (categories s))" and pos: "0 < cat_id c"
    by (simp_all add: unique_primary_keys_def positive_category_keys_def list_all_iff)
  from pos have "cat_id c \<noteq> 0" by simp
  then show ?thesis
    by (simp add: resolve_attributes_def Category_objects_get_found [OF d assms(3)] Let_def)
qed

text \<open>
  C6. For every category of the store, \<open>resolve_attributes\<close> at its key returns,
  each attribute exactly once, exactly the attributes associated on the product-type
  path or on the variant-type path with a product type used by a product in the
  descendant-inclusive subtree of the category (\<open>subtree_attributes\<close>); and when no
  product lies in that subtree the result is empty.
\<close>

theorem resolve_attributes_category_union:
  assumes "unique_primary_keys s" and "positive_category_keys s"
    and "c \<in> set (categories s)"
  shows "\<exists>r. resolve_attributes s (Some (cat_id c)) = Inr r
           \<and> distinct r
           \<and> set r = subtree_attributes s c
           \<and> ((\<forall>p \<in> set (products s).
                  product_category_id p \<notin> cat_id ` set (get_descendants s c True))
                \<longrightarrow> r = [])"
proof -
  let ?tree = "get_descendants s c True"
  let ?pts = "remdups (map product_type_id
     (filter (\<lambda>p. product_category_id p \<in> set (map cat_id ?tree)) (products s)))"
  let ?r = "remdups (map fst
     (filter (\<lambda>(a, p, v). column_in p ?pts \<or> column_in v ?pts) (attribute_rows s)))"
  have r: "resolve_attributes s (Some (cat_id c)) = Inr ?r"
    using assms by (rule resolve_attributes_found)
  have s: "set ?r = subtree_attributes s c"
    unfolding set_remdups filtered_rows_attributes subtree_attributes_def
    by auto
  have e: "?r = []"
    if "\<forall>p \<in> set (products s). product_category_id p \<notin> cat_id ` set ?tree"
  proof -
    from that have "subtree_attributes s c = {}"
      by (auto simp add: subtree_attributes_def)
    with s have "set ?r = {}" by simp
    then show ?thesis by (simp only: set_empty)
  qed
  have d: "distinct ?r" by (rule distinct_remdups)
  from e have e': "(\<forall>p \<in> set (products s). product_category_id p \<notin> cat_id ` set ?tree)
      \<longrightarrow> ?r = []" by (rule impI)
  from r d s e' have "resolve_attributes s (Some (cat_id c)) = Inr ?r \<and> distinct ?r
      \<and> set ?r = subtree_attributes s c
      \<and> ((\<forall>p \<in> set (products s). product_category_id p \<notin> cat_id ` set ?tree)
           \<longrightarrow> ?r = [])"
    by (intro conjI)
  then show ?thesis by (rule exI [of _ ?r])
qed

theorem resolve_attributes_category_union_witness:
  "unique_primary_keys demo_store \<and> positive_category_keys demo_store
   \<and> cat_shirts \<in> set (categories demo_store)
   \<and> resolve_attributes demo_store (Some 2) = Inr [attr_color, attr_size]
   \<and> subtree_attributes demo_store cat_shirts = {attr_color, attr_size}
   \<and> cat_hats \<in> set (categories demo_store)
   \<and> list_all (\<lambda>p. product_category_id p
                     \<notin> cat_id ` set (get_descendants demo_store cat_hats True))
        (products demo_store)
   \<and> resolve_attributes demo_store (Some 4) = Inr []"
proof -
  note u = demo_store_unique_keys and k = demo_store_positive_keys
  have m2: "cat_shirts \<in> set (categories demo_store)"
    and m4: "cat_hats \<in> set (categories demo_store)"
    by (simp_all add: demo_store_def)
  have i2: "cat_id cat_shirts = 2" and i4: "cat_id cat_hats = 4"
    by (simp_all add: cat_shirts_def cat_hats_def)
  have t4: "get_descendants demo_store cat_hats True = [cat_hats]"
    by (simp add: get_descendants_def get_ancestors_def demo_defs)
  have np: "list_all (\<lambda>p. product_category_id p
                     \<notin> cat_id ` set (get_descendants demo_store cat_hats True))
        (products demo_store)"
    unfolding t4 by (simp add: demo_defs)
  have r2: "resolve_attributes demo_store (Some 2) = Inr [attr_color, attr_size]"
    by code_simp
  from resolve_attributes_category_union [OF u k m2]
  have s2: "subtree_attributes demo_store cat_shirts = {attr_color, attr_size}"
    by (auto simp add: i2 r2)
  from resolve_attributes_category_union [OF u k m4] np
  have r4: "resolve_attributes demo_store (Some 4) = Inr []"
    by (auto simp add: i4 list_all_iff)
  from u k m2 r2 s2 m4 np r4 show ?thesis by blast
qed

section \<open>Theorems: payment vocabulary\<close>

lemmas TransactionKind_defs =
  TransactionKind_AUTH_def TransactionKind_CAPTURE_def TransactionKind_VOID_def
  TransactionKind_REFUND_def TransactionKind_CONFIRM_def

lemmas ChargeStatus_defs =
  ChargeStatus_NOT_CHARGED_def ChargeStatus_PARTIALLY_CHARGED_def
  ChargeStatus_FULLY_CHARGED_def ChargeStatus_PARTIALLY_REFUNDED_def
  ChargeStatus_FULLY_REFUNDED_def

lemma TransactionError_UNIV: "(UNIV :: TransactionError set) = set TransactionError_members"
proof -
  have "x \<in> set TransactionError_members" for x
    by (cases x) (simp_all add: TransactionError_members_def)
  then show ?thesis by blast
qed

lemma TransactionError_members_distinct: "distinct TransactionError_members"
  by (simp add: TransactionError_members_def)

lemma TransactionError_values_distinct:
  "distinct (map TransactionError_value TransactionError_members)"
  by (simp add: TransactionError_members_def)

lemma TransactionKind_values_set:
  "set TransactionKind_values = {''auth'', ''capture'', ''void'', ''refund'', ''confirm''}"
  by (simp add: TransactionKind_values_def TransactionKind_defs)

lemma TransactionKind_CHOICES_keys:
  "set (map fst TransactionKind_CHOICES) = set TransactionKind_values"
  by (auto simp add: TransactionKind_CHOICES_def TransactionKind_values_def)

lemma TransactionKind_CHOICES_distinct: "distinct (map fst TransactionKind_CHOICES)"
  by (simp add: TransactionKind_CHOICES_def TransactionKind_defs)

lemma ChargeStatus_values_set:
  "set ChargeStatus_values =
     {''not-charged'', ''partially-charged'', ''fully-charged'',
      ''partially-refunded'', ''fully-refunded''}"
  by (simp add: ChargeStatus_values_def ChargeStatus_defs)

lemma ChargeStatus_CHOICES_keys:
  "set (map fst ChargeStatus_CHOICES) = set ChargeStatus_values"
  by (auto simp add: ChargeStatus_CHOICES_def ChargeStatus_values_def)

lemma ChargeStatus_CHOICES_distinct: "distinct (map fst ChargeStatus_CHOICES)"
  by (simp add: ChargeStatus_CHOICES_def ChargeStatus_defs)

text \<open>
  C8. The payment vocabulary is closed and exact: the transaction kinds are exactly
  auth, capture, void, refund and confirm; the charge statuses are exactly not-charged,
  partially-charged, fully-charged, partially-refunded and fully-refunded; the
  transaction errors are exactly ten members with ten different values; and the CHOICES
  lists of TransactionKind and ChargeStatus list every value of their class exactly once
  (same set of keys, no key twice, five entries each).
\<close>

theorem payment_vocabulary_closed:
  "set TransactionKind_values = {''auth'', ''capture'', ''void'', ''refund'', ''confirm''}
   \<and> distinct TransactionKind_values
   \<and> set ChargeStatus_values =
       {''not-charged'', ''partially-charged'', ''fully-charged'',
        ''partially-refunded'', ''fully-refunded''}
   \<and> distinct ChargeStatus_values
   \<and> (UNIV :: TransactionError set) = set TransactionError_members
   \<and> card (UNIV :: TransactionError set) = 10
   \<and> distinct (map TransactionError_value TransactionError_members)
   \<and> set (map fst TransactionKind_CHOICES) = set TransactionKind_values
   \<and> distinct (map fst TransactionKind_CHOICES)
   \<and> length TransactionKind_CHOICES = 5
   \<and> set (map fst ChargeStatus_CHOICES) = set ChargeStatus_values
   \<and> distinct (map fst ChargeStatus_CHOICES)
   \<and> length ChargeStatus_CHOICES = 5"
proof -
  have k: "distinct TransactionKind_values"
    by (simp add: TransactionKind_values_def TransactionKind_defs)
  have c: "distinct ChargeStatus_values"
    by (simp add: ChargeStatus_values_def ChargeStatus_defs)
  have "card (set TransactionError_members) = length TransactionError_members"
    using TransactionError_members_distinct by (rule distinct_card)
  then have n: "card (UNIV :: TransactionError set) = 10"
    by (simp add: TransactionError_UNIV TransactionError_members_def)
  have lk: "length TransactionKind_CHOICES = 5"
    by (simp add: TransactionKind_CHOICES_def)
  have lc: "length ChargeStatus_CHOICES = 5"
    by (simp add: ChargeStatus_CHOICES_def)
  show ?thesis
    using TransactionKind_values_set k ChargeStatus_values_set c TransactionError_UNIV n
      TransactionError_values_distinct TransactionKind_CHOICES_keys
      TransactionKind_CHOICES_distinct lk ChargeStatus_CHOICES_keys
      ChargeStatus_CHOICES_distinct lc
    by blast
qed

end
